theory Spec2Isabelle
  imports Main "HOL-Library.AList"
begin

section \<open>The user-session reducer of \<^verbatim>\<open>App.js\<close>\<close>

text \<open>
  \<^verbatim>\<open>App.js\<close> keeps one object \<^verbatim>\<open>{ isLoggedIn, username, email }\<close> in a React
  reducer hook and shares it with nested components through a context. The functions
  embedded here are \<^verbatim>\<open>userReducer\<close> (lines 20-31), \<^verbatim>\<open>useUserContext\<close>
  (lines 37-43) and the part of \<^verbatim>\<open>UserProvider\<close> (lines 46-64) that creates the
  state and the value handed to the context.

  JavaScript objects are reached by reference and a reducer is expected not to write to
  the object it is given, so objects live in an explicit heap: whether \<^verbatim>\<open>userReducer\<close>
  returns the very object it received, a fresh one, or writes to an old one is then
  something the theorems can say.
\<close>

subsection \<open>Values, objects, heap\<close>

type_synonym addr = nat

text \<open>
  A JavaScript value. \<open>JPrim\<close> stands for every primitive that is not listed (numbers,
  bigints, symbols); the functions below never look inside one, so they are left
  abstract. Functions are objects and therefore references. Of a string only its
  identity matters here: the reducer compares \<^verbatim>\<open>action.type\<close> with three ASCII
  literals and hands every other string on as it is.
\<close>

datatype 'p jsval =
    JUndefined
  | JNull
  | JBool bool
  | JStr string
  | JPrim 'p
  | JRef addr

text \<open>
  An object is the list of its own enumerable data properties, in creation order (the
  order in which a spread copies them and \<^verbatim>\<open>JSON.stringify\<close> prints them). The heap
  is the list of the objects allocated so far; an address is an index into it.
\<close>

type_synonym 'p object = "(string \<times> 'p jsval) list"

type_synonym 'p heap = "'p object list"

text \<open>
  \<^verbatim>\<open>TypeError\<close> is what the engine raises when a property of \<^verbatim>\<open>undefined\<close> or
  \<^verbatim>\<open>null\<close> is read; \<open>Error msg\<close> is \<^verbatim>\<open>throw new Error(msg)\<close>.
\<close>

datatype error = TypeError | Error string

definition alloc :: "'p heap \<Rightarrow> 'p object \<Rightarrow> 'p heap \<times> addr" where
  "alloc h ob = (h @ [ob], length h)"

text \<open>
  The object at an address. A program only holds addresses that were allocated; for any
  other address the model answers with the object without properties.
\<close>

definition deref :: "'p heap \<Rightarrow> addr \<Rightarrow> 'p object" where
  "deref h a = (if a < length h then h ! a else [])"

text \<open>
  The property read \<^verbatim>\<open>v.k\<close>, for the property names this program reads
  (\<^verbatim>\<open>type\<close>, \<^verbatim>\<open>payload\<close>, \<^verbatim>\<open>userState\<close>, \<^verbatim>\<open>isLoggedIn\<close>, \<^verbatim>\<open>username\<close>,
  \<^verbatim>\<open>email\<close>): none of them is defined by \<^verbatim>\<open>Object.prototype\<close> or by the wrapper
  of a primitive, so a read that finds no own property yields \<^verbatim>\<open>undefined\<close>.
\<close>

fun prop_read :: "'p heap \<Rightarrow> 'p jsval \<Rightarrow> string \<Rightarrow> error + 'p jsval" where
  "prop_read h JUndefined k = Inl TypeError"
| "prop_read h JNull k = Inl TypeError"
| "prop_read h (JRef a) k =
     Inr (case map_of (deref h a) k of None \<Rightarrow> JUndefined | Some x \<Rightarrow> x)"
| "prop_read h (JBool b) k = Inr JUndefined"
| "prop_read h (JStr s) k = Inr JUndefined"
| "prop_read h (JPrim p) k = Inr JUndefined"

text \<open>
  The object literal \<^verbatim>\<open>{ ...state, k: v }\<close>: a new object with the properties of
  \<^verbatim>\<open>state\<close> in their order, where \<^verbatim>\<open>k\<close> then gets the value \<^verbatim>\<open>v\<close> (in place when
  \<^verbatim>\<open>state\<close> has a property \<^verbatim>\<open>k\<close>, at the end otherwise).
\<close>

definition spread_with :: "'p heap \<Rightarrow> addr \<Rightarrow> string \<Rightarrow> 'p jsval \<Rightarrow> 'p heap \<times> addr" where
  "spread_with h state k v = alloc h (AList.update k v (deref h state))"

subsection \<open>The state and the reducer\<close>

text \<open>
  \<^verbatim>\<open>
  const initialUserState = {
    isLoggedIn: false,
    username: '',
    email: '',
  };
  \<close>
\<close>

definition initialUserState :: "'p object" where
  "initialUserState =
     [(''isLoggedIn'', JBool False), (''username'', JStr ''''), (''email'', JStr '''')]"

text \<open>
  \<^verbatim>\<open>
  function userReducer(state, action) {
    switch (action.type) {
      case 'SET_LOGGEDIN':
        return { ...state, isLoggedIn: action.payload };
      case 'SET_USERNAME':
        return { ...state, username: action.payload };
      case 'SET_EMAIL':
        return { ...state, email: action.payload };
      default:
        return state;
    }
  }
  \<close>
  \<^verbatim>\<open>state\<close> is the reference to the current state object (the hook passes the initial
  object or an earlier result of the reducer); \<^verbatim>\<open>action\<close> is any value. The
  \<^verbatim>\<open>switch\<close> compares with \<^verbatim>\<open>===\<close>, so a case is taken only by the string itself.
\<close>

definition userReducer ::
    "'p heap \<Rightarrow> addr \<Rightarrow> 'p jsval \<Rightarrow> error + ('p heap \<times> addr)" where
  "userReducer h state action =
     (case prop_read h action ''type'' of
        Inl e \<Rightarrow> Inl e
      | Inr ty \<Rightarrow>
          if ty = JStr ''SET_LOGGEDIN'' then
            (case prop_read h action ''payload'' of
               Inl e \<Rightarrow> Inl e
             | Inr payload \<Rightarrow> Inr (spread_with h state ''isLoggedIn'' payload))
          else if ty = JStr ''SET_USERNAME'' then
            (case prop_read h action ''payload'' of
               Inl e \<Rightarrow> Inl e
             | Inr payload \<Rightarrow> Inr (spread_with h state ''username'' payload))
          else if ty = JStr ''SET_EMAIL'' then
            (case prop_read h action ''payload'' of
               Inl e \<Rightarrow> Inl e
             | Inr payload \<Rightarrow> Inr (spread_with h state ''email'' payload))
          else Inr (h, state))"

subsection \<open>The provider: store creation, dispatch, context\<close>

text \<open>
  What \<^verbatim>\<open>useReducer(userReducer, initialUserState)\<close> holds for \<^verbatim>\<open>UserProvider\<close>: the
  heap and the reference to the current state object.
\<close>

record 'p store =
  heap :: "'p heap"
  userState :: addr

text \<open>
  Store creation. Evaluating the module allocates \<^verbatim>\<open>initialUserState\<close> on top of
  whatever heap \<open>h0\<close> exists by then, and on the first render of \<^verbatim>\<open>UserProvider\<close>
  the hook (React's, not part of this repository) gives its second argument as the state.
\<close>

definition UserProvider_mount :: "'p heap \<Rightarrow> 'p store" where
  "UserProvider_mount h0 =
     (let (h, r) = alloc h0 initialUserState in \<lparr>heap = h, userState = r\<rparr>)"

text \<open>
  \<^verbatim>\<open>setUserState(action)\<close>, the dispatch function of the hook: the next state is
  \<^verbatim>\<open>userReducer(state, action)\<close>, and what the reducer throws surfaces unchanged.
\<close>

definition setUserState :: "'p store \<Rightarrow> 'p jsval \<Rightarrow> error + 'p store" where
  "setUserState st action =
     (case userReducer (heap st) (userState st) action of
        Inl e \<Rightarrow> Inl e
      | Inr (h, r) \<Rightarrow> Inr \<lparr>heap = h, userState = r\<rparr>)"

text \<open>
  The call shape of the two handlers of \<^verbatim>\<open>ManageUser\<close> (lines 94 and 98),
  \<^verbatim>\<open>setUserState({ type: ty, payload: p })\<close>: the action literal is allocated, then
  dispatched.
\<close>

definition action_literal :: "'p jsval \<Rightarrow> 'p jsval \<Rightarrow> 'p object" where
  "action_literal ty p = [(''type'', ty), (''payload'', p)]"

definition setUserState_literal ::
    "'p store \<Rightarrow> 'p jsval \<Rightarrow> 'p jsval \<Rightarrow> error + 'p store" where
  "setUserState_literal st ty p =
     (let (h, a) = alloc (heap st) (action_literal ty p)
      in setUserState (st\<lparr>heap := h\<rparr>) (JRef a))"

text \<open>The current state object of a store, as a component reads it.\<close>

definition current :: "'p store \<Rightarrow> 'p object" where
  "current st = deref (heap st) (userState st)"

text \<open>
  \<^verbatim>\<open>export const UserContext = createContext();\<close> has no default value, so
  \<^verbatim>\<open>useContext(UserContext)\<close> is \<^verbatim>\<open>undefined\<close> outside every provider and the
  \<^verbatim>\<open>value\<close> of the nearest enclosing provider otherwise (React's documented
  behaviour). \<open>providers\<close> lists the values of the enclosing
  \<^verbatim>\<open>UserContext.Provider\<close> elements, nearest first.
\<close>

definition useContext :: "'p jsval list \<Rightarrow> 'p jsval" where
  "useContext providers = (case providers of [] \<Rightarrow> JUndefined | v # _ \<Rightarrow> v)"

text \<open>
  \<^verbatim>\<open>
  export const useUserContext = () => {
    const context = useContext(UserContext);
    if (context == null) {
      throw new Error('userContext needs to be within a Provider');
    }
    return context;
  };
  \<close>
  \<^verbatim>\<open>context == null\<close> holds for \<^verbatim>\<open>undefined\<close> and for \<^verbatim>\<open>null\<close> only.
\<close>

definition useUserContext :: "'p jsval list \<Rightarrow> error + 'p jsval" where
  "useUserContext providers =
     (let context = useContext providers
      in if context = JUndefined \<or> context = JNull
         then Inl (Error ''userContext needs to be within a Provider'')
         else Inr context)"

text \<open>
  A render of \<^verbatim>\<open>UserProvider\<close>:
  \<^verbatim>\<open>const providerValue = { userState, setUserState };\<close> is allocated and given to
  \<^verbatim>\<open>UserContext.Provider\<close>. \<open>dispatchFn\<close> is the dispatch function object of the
  hook. The result is the heap after the render and the provided value.
\<close>

definition UserProvider :: "'p store \<Rightarrow> 'p jsval \<Rightarrow> 'p heap \<times> 'p jsval" where
  "UserProvider st dispatchFn =
     (let (h, pv) = alloc (heap st)
                      [(''userState'', JRef (userState st)), (''setUserState'', dispatchFn)]
      in (h, JRef pv))"

text \<open>
  The typing of the state object that \<^verbatim>\<open>initialUserState\<close> starts with: a boolean and
  two strings.
\<close>

definition is_bool :: "'p jsval \<Rightarrow> bool" where
  "is_bool v = (case v of JBool _ \<Rightarrow> True | _ \<Rightarrow> False)"

definition is_str :: "'p jsval \<Rightarrow> bool" where
  "is_str v = (case v of JStr _ \<Rightarrow> True | _ \<Rightarrow> False)"

definition well_typed :: "'p heap \<Rightarrow> addr \<Rightarrow> bool" where
  "well_typed h r =
     (case (prop_read h (JRef r) ''isLoggedIn'', prop_read h (JRef r) ''username'',
            prop_read h (JRef r) ''email'') of
        (Inr b, Inr u, Inr e) \<Rightarrow> is_bool b \<and> is_str u \<and> is_str e
      | _ \<Rightarrow> False)"

text \<open>
  The shape of the state object: the three properties of \<^verbatim>\<open>initialUserState\<close>, in
  its order, and no other.
\<close>

definition session_shape :: "'p object \<Rightarrow> bool" where
  "session_shape ob = (map fst ob = [''isLoggedIn'', ''username'', ''email''])"

section \<open>Properties\<close>

subsection \<open>Heap and property lemmas\<close>

lemma deref_append_old: "a < length h \<Longrightarrow> deref (h @ new) a = deref h a"
  by (simp add: deref_def nth_append)

lemma deref_append_new: "deref (h @ [ob]) (length h) = ob"
  by (simp add: deref_def)

lemma prop_read_spread_same:
  "spread_with h state k v = (h', r) \<Longrightarrow> prop_read h' (JRef r) k = Inr v"
  by (auto simp: spread_with_def alloc_def deref_append_new update_conv')

lemma prop_read_spread_other:
  "spread_with h state k v = (h', r) \<Longrightarrow> k' \<noteq> k \<Longrightarrow>
     prop_read h' (JRef r) k' = prop_read h (JRef state) k'"
  by (auto simp: spread_with_def alloc_def deref_append_new update_conv')

lemma prop_read_total:
  "action \<noteq> JUndefined \<Longrightarrow> action \<noteq> JNull \<Longrightarrow> \<exists>v. prop_read h action k = Inr v"
  by (cases action) auto

lemma prop_read_allocated:
  "prop_read h action k = Inr v \<Longrightarrow> v \<noteq> JUndefined \<Longrightarrow> \<exists>a. action = JRef a \<and> a < length h"
  by (cases action) (auto simp: deref_def split: if_splits)

lemma prop_read_append_allocated:
  "action = JRef a \<Longrightarrow> a < length h \<Longrightarrow> prop_read (h @ new) action k = prop_read h action k"
  by (simp add: deref_append_old)

subsection \<open>The three setters\<close>

text \<open>
  C1. For every state object and every value \<open>v\<close>, the reducer applied to an action whose
  \<^verbatim>\<open>type\<close> is \<^verbatim>\<open>'SET_LOGGEDIN'\<close> and whose \<^verbatim>\<open>payload\<close> is \<open>v\<close> returns an object
  whose login flag (\<^verbatim>\<open>isLoggedIn\<close> in the code) is \<open>v\<close> and whose \<^verbatim>\<open>username\<close>,
  \<^verbatim>\<open>email\<close> and every other property read as they do on the state it was given.
\<close>

theorem userReducer_SET_LOGGEDIN:
  assumes "prop_read h action ''type'' = Inr (JStr ''SET_LOGGEDIN'')"
    and "prop_read h action ''payload'' = Inr v"
  shows "\<exists>h' r. userReducer h state action = Inr (h', r)
           \<and> prop_read h' (JRef r) ''isLoggedIn'' = Inr v
           \<and> prop_read h' (JRef r) ''username'' = prop_read h (JRef state) ''username''
           \<and> prop_read h' (JRef r) ''email'' = prop_read h (JRef state) ''email''
           \<and> (\<forall>k. k \<noteq> ''isLoggedIn'' \<longrightarrow>
                  prop_read h' (JRef r) k = prop_read h (JRef state) k)"
proof -
  obtain h' r where sp: "spread_with h state ''isLoggedIn'' v = (h', r)"
    by (cases "spread_with h state ''isLoggedIn'' v")
  from assms sp have run: "userReducer h state action = Inr (h', r)"
    by (simp add: userReducer_def)
  have same: "prop_read h' (JRef r) ''isLoggedIn'' = Inr v"
    using sp by (rule prop_read_spread_same)
  have other: "\<And>k. k \<noteq> ''isLoggedIn'' \<Longrightarrow>
      prop_read h' (JRef r) k = prop_read h (JRef state) k"
    using sp by (rule prop_read_spread_other)
  have u: "prop_read h' (JRef r) ''username'' = prop_read h (JRef state) ''username''"
    by (rule other) simp
  have e: "prop_read h' (JRef r) ''email'' = prop_read h (JRef state) ''email''"
    by (rule other) simp
  from run same u e other show ?thesis by blast
qed

theorem userReducer_SET_LOGGEDIN_witness:
  "prop_read [initialUserState, action_literal (JStr ''SET_LOGGEDIN'') (JBool True)]
       (JRef 1) ''type'' = Inr (JStr ''SET_LOGGEDIN'' :: unit jsval)
   \<and> prop_read [initialUserState, action_literal (JStr ''SET_LOGGEDIN'') (JBool True)]
       (JRef 1) ''payload'' = Inr (JBool True :: unit jsval)
   \<and> (\<exists>h' r. userReducer
                [initialUserState, action_literal (JStr ''SET_LOGGEDIN'') (JBool True)]
                0 (JRef 1) = Inr (h', r)
         \<and> prop_read h' (JRef r) ''isLoggedIn'' = Inr (JBool True :: unit jsval)
         \<and> prop_read h' (JRef r) ''username'' = Inr (JStr '''')
         \<and> prop_read h' (JRef r) ''email'' = Inr (JStr ''''))"
proof -
  let ?h = "[initialUserState, action_literal (JStr ''SET_LOGGEDIN'') (JBool True)]
              :: unit heap"
  have t: "prop_read ?h (JRef 1) ''type'' = Inr (JStr ''SET_LOGGEDIN'')"
    by (simp add: deref_def action_literal_def)
  have p: "prop_read ?h (JRef 1) ''payload'' = Inr (JBool True)"
    by (simp add: deref_def action_literal_def)
  have s: "prop_read ?h (JRef 0) ''username'' = Inr (JStr '''')"
          "prop_read ?h (JRef 0) ''email'' = Inr (JStr '''')"
    by (simp_all add: deref_def initialUserState_def)
  from userReducer_SET_LOGGEDIN [OF t p, of 0] s t p show ?thesis
    by auto
qed

text \<open>
  C2. For every state object and every value \<open>v\<close> (a string in particular), the reducer
  applied to an action whose \<^verbatim>\<open>type\<close> is \<^verbatim>\<open>'SET_USERNAME'\<close> and whose
  \<^verbatim>\<open>payload\<close> is \<open>v\<close> returns an object whose \<^verbatim>\<open>username\<close> is \<open>v\<close> and whose login
  flag, \<^verbatim>\<open>email\<close> and every other property read as they do on the state it was given.
\<close>

theorem userReducer_SET_USERNAME:
  assumes "prop_read h action ''type'' = Inr (JStr ''SET_USERNAME'')"
    and "prop_read h action ''payload'' = Inr v"
  shows "\<exists>h' r. userReducer h state action = Inr (h', r)
           \<and> prop_read h' (JRef r) ''username'' = Inr v
           \<and> prop_read h' (JRef r) ''isLoggedIn'' = prop_read h (JRef state) ''isLoggedIn''
           \<and> prop_read h' (JRef r) ''email'' = prop_read h (JRef state) ''email''
           \<and> (\<forall>k. k \<noteq> ''username'' \<longrightarrow>
                  prop_read h' (JRef r) k = prop_read h (JRef state) k)"
proof -
  obtain h' r where sp: "spread_with h state ''username'' v = (h', r)"
    by (cases "spread_with h state ''username'' v")
  from assms sp have run: "userReducer h state action = Inr (h', r)"
    by (simp add: userReducer_def)
  have same: "prop_read h' (JRef r) ''username'' = Inr v"
    using sp by (rule prop_read_spread_same)
  have other: "\<And>k. k \<noteq> ''username'' \<Longrightarrow>
      prop_read h' (JRef r) k = prop_read h (JRef state) k"
    using sp by (rule prop_read_spread_other)
  have l: "prop_read h' (JRef r) ''isLoggedIn'' = prop_read h (JRef state) ''isLoggedIn''"
    by (rule other) simp
  have e: "prop_read h' (JRef r) ''email'' = prop_read h (JRef state) ''email''"
    by (rule other) simp
  from run same l e other show ?thesis by blast
qed

theorem userReducer_SET_USERNAME_witness:
  "prop_read [initialUserState, action_literal (JStr ''SET_USERNAME'') (JStr ''alice'')]
       (JRef 1) ''type'' = Inr (JStr ''SET_USERNAME'' :: unit jsval)
   \<and> prop_read [initialUserState, action_literal (JStr ''SET_USERNAME'') (JStr ''alice'')]
       (JRef 1) ''payload'' = Inr (JStr ''alice'' :: unit jsval)
   \<and> (\<exists>h' r. userReducer
                [initialUserState, action_literal (JStr ''SET_USERNAME'') (JStr ''alice'')]
                0 (JRef 1) = Inr (h', r)
         \<and> prop_read h' (JRef r) ''username'' = Inr (JStr ''alice'' :: unit jsval)
         \<and> prop_read h' (JRef r) ''isLoggedIn'' = Inr (JBool False)
         \<and> prop_read h' (JRef r) ''email'' = Inr (JStr ''''))"
proof -
  let ?h = "[initialUserState, action_literal (JStr ''SET_USERNAME'') (JStr ''alice'')]
              :: unit heap"
  have t: "prop_read ?h (JRef 1) ''type'' = Inr (JStr ''SET_USERNAME'')"
    by (simp add: deref_def action_literal_def)
  have p: "prop_read ?h (JRef 1) ''payload'' = Inr (JStr ''alice'')"
    by (simp add: deref_def action_literal_def)
  have s: "prop_read ?h (JRef 0) ''isLoggedIn'' = Inr (JBool False)"
          "prop_read ?h (JRef 0) ''email'' = Inr (JStr '''')"
    by (simp_all add: deref_def initialUserState_def)
  from userReducer_SET_USERNAME [OF t p, of 0] s t p show ?thesis
    by auto
qed

text \<open>
  C3. For every state object and every value \<open>v\<close> (a string in particular), the reducer
  applied to an action whose \<^verbatim>\<open>type\<close> is \<^verbatim>\<open>'SET_EMAIL'\<close> and whose \<^verbatim>\<open>payload\<close>
  is \<open>v\<close> returns an object whose \<^verbatim>\<open>email\<close> is \<open>v\<close> and whose login flag,
  \<^verbatim>\<open>username\<close> and every other property read as they do on the state it was given.
\<close>

theorem userReducer_SET_EMAIL:
  assumes "prop_read h action ''type'' = Inr (JStr ''SET_EMAIL'')"
    and "prop_read h action ''payload'' = Inr v"
  shows "\<exists>h' r. userReducer h state action = Inr (h', r)
           \<and> prop_read h' (JRef r) ''email'' = Inr v
           \<and> prop_read h' (JRef r) ''isLoggedIn'' = prop_read h (JRef state) ''isLoggedIn''
           \<and> prop_read h' (JRef r) ''username'' = prop_read h (JRef state) ''username''
           \<and> (\<forall>k. k \<noteq> ''email'' \<longrightarrow>
                  prop_read h' (JRef r) k = prop_read h (JRef state) k)"
proof -
  obtain h' r where sp: "spread_with h state ''email'' v = (h', r)"
    by (cases "spread_with h state ''email'' v")
  from assms sp have run: "userReducer h state action = Inr (h', r)"
    by (simp add: userReducer_def)
  have same: "prop_read h' (JRef r) ''email'' = Inr v"
    using sp by (rule prop_read_spread_same)
  have other: "\<And>k. k \<noteq> ''email'' \<Longrightarrow>
      prop_read h' (JRef r) k = prop_read h (JRef state) k"
    using sp by (rule prop_read_spread_other)
  have l: "prop_read h' (JRef r) ''isLoggedIn'' = prop_read h (JRef state) ''isLoggedIn''"
    by (rule other) simp
  have u: "prop_read h' (JRef r) ''username'' = prop_read h (JRef state) ''username''"
    by (rule other) simp
  from run same l u other show ?thesis by blast
qed

theorem userReducer_SET_EMAIL_witness:
  "prop_read [initialUserState, action_literal (JStr ''SET_EMAIL'') (JStr ''a@x.com'')]
       (JRef 1) ''type'' = Inr (JStr ''SET_EMAIL'' :: unit jsval)
   \<and> prop_read [initialUserState, action_literal (JStr ''SET_EMAIL'') (JStr ''a@x.com'')]
       (JRef 1) ''payload'' = Inr (JStr ''a@x.com'' :: unit jsval)
   \<and> (\<exists>h' r. userReducer
                [initialUserState, action_literal (JStr ''SET_EMAIL'') (JStr ''a@x.com'')]
                0 (JRef 1) = Inr (h', r)
         \<and> prop_read h' (JRef r) ''email'' = Inr (JStr ''a@x.com'' :: unit jsval)
         \<and> prop_read h' (JRef r) ''isLoggedIn'' = Inr (JBool False)
         \<and> prop_read h' (JRef r) ''username'' = Inr (JStr ''''))"
proof -
  let ?h = "[initialUserState, action_literal (JStr ''SET_EMAIL'') (JStr ''a@x.com'')]
              :: unit heap"
  have t: "prop_read ?h (JRef 1) ''type'' = Inr (JStr ''SET_EMAIL'')"
    by (simp add: deref_def action_literal_def)
  have p: "prop_read ?h (JRef 1) ''payload'' = Inr (JStr ''a@x.com'')"
    by (simp add: deref_def action_literal_def)
  have s: "prop_read ?h (JRef 0) ''isLoggedIn'' = Inr (JBool False)"
          "prop_read ?h (JRef 0) ''username'' = Inr (JStr '''')"
    by (simp_all add: deref_def initialUserState_def)
  from userReducer_SET_EMAIL [OF t p, of 0] s t p show ?thesis
    by auto
qed

subsection \<open>Any other action\<close>

text \<open>
  C4. For every state and every action whose \<^verbatim>\<open>type\<close> is none of
  \<^verbatim>\<open>'SET_LOGGEDIN'\<close>, \<^verbatim>\<open>'SET_USERNAME'\<close>, \<^verbatim>\<open>'SET_EMAIL'\<close> (another string, a
  value that is not a string, or no \<^verbatim>\<open>type\<close> at all), the reducer raises nothing and
  returns the state it was given: the same reference, in an unchanged heap.
\<close>

theorem userReducer_default:
  assumes "prop_read h action ''type'' = Inr ty"
    and "ty \<noteq> JStr ''SET_LOGGEDIN''"
    and "ty \<noteq> JStr ''SET_USERNAME''"
    and "ty \<noteq> JStr ''SET_EMAIL''"
  shows "userReducer h state action = Inr (h, state)"
  using assms by (simp add: userReducer_def)

theorem userReducer_default_witness:
  "prop_read [initialUserState, action_literal (JStr ''RESET'') JUndefined]
       (JRef 1) ''type'' = Inr (JStr ''RESET'' :: unit jsval)
   \<and> (JStr ''RESET'' :: unit jsval) \<noteq> JStr ''SET_LOGGEDIN''
   \<and> (JStr ''RESET'' :: unit jsval) \<noteq> JStr ''SET_USERNAME''
   \<and> (JStr ''RESET'' :: unit jsval) \<noteq> JStr ''SET_EMAIL''
   \<and> userReducer [initialUserState, action_literal (JStr ''RESET'') JUndefined] 0 (JRef 1)
       = Inr ([initialUserState, action_literal (JStr ''RESET'') JUndefined] :: unit heap, 0)"
proof -
  let ?h = "[initialUserState, action_literal (JStr ''RESET'') JUndefined] :: unit heap"
  have t: "prop_read ?h (JRef 1) ''type'' = Inr (JStr ''RESET'')"
    by (simp add: deref_def action_literal_def)
  have n: "(JStr ''RESET'' :: unit jsval) \<noteq> JStr ''SET_LOGGEDIN''"
          "(JStr ''RESET'' :: unit jsval) \<noteq> JStr ''SET_USERNAME''"
          "(JStr ''RESET'' :: unit jsval) \<noteq> JStr ''SET_EMAIL''"
    by simp_all
  from userReducer_default [OF t n, of 0] t n show ?thesis
    by simp
qed

subsection \<open>The reducer as a function: totality, no write to existing objects\<close>

lemma spread_with_heap:
  "spread_with h state k v = (h', r) \<Longrightarrow>
     take (length h) h' = h \<and> r < length h' \<and> deref h' r = AList.update k v (deref h state)"
  by (auto simp: spread_with_def alloc_def deref_append_new)

lemma session_shape_update:
  "session_shape ob \<Longrightarrow> k = ''isLoggedIn'' \<or> k = ''username'' \<or> k = ''email'' \<Longrightarrow>
     session_shape (AList.update k v ob)"
  by (auto simp: session_shape_def update_keys)

lemma userReducer_setter:
  "prop_read h action ''type'' = Inr ty \<Longrightarrow> prop_read h action ''payload'' = Inr v \<Longrightarrow>
     ty = JStr ''SET_LOGGEDIN'' \<and> k = ''isLoggedIn''
       \<or> ty = JStr ''SET_USERNAME'' \<and> k = ''username''
       \<or> ty = JStr ''SET_EMAIL'' \<and> k = ''email'' \<Longrightarrow>
     userReducer h state action = Inr (spread_with h state k v)"
  by (auto simp: userReducer_def)

text \<open>
  Outside the requests: \<^verbatim>\<open>action.type\<close> on \<^verbatim>\<open>undefined\<close> or \<^verbatim>\<open>null\<close> is the
  engine's \<^verbatim>\<open>TypeError\<close>, raised before the \<^verbatim>\<open>switch\<close> is entered.
\<close>

lemma userReducer_nullish:
  "userReducer h state JUndefined = Inl TypeError"
  "userReducer h state JNull = Inl TypeError"
  by (simp_all add: userReducer_def)

text \<open>
  C5. The reducer is total on requests and writes nothing. For every heap, every state
  and every action that is a request (an object carrying a \<^verbatim>\<open>type\<close>; the proof needs
  no more than that the action is neither \<^verbatim>\<open>undefined\<close> nor \<^verbatim>\<open>null\<close>, whatever its
  \<^verbatim>\<open>type\<close>), the reducer raises nothing and returns a state; every object that existed
  before the call is unchanged after it (the heap only grows); the returned reference is
  allocated when the given one is; and the result has the three properties of a session
  state when the given state has them.
\<close>

theorem userReducer_total:
  assumes "action \<noteq> JUndefined" and "action \<noteq> JNull"
  shows "\<exists>h' r. userReducer h state action = Inr (h', r)
           \<and> take (length h) h' = h
           \<and> (state < length h \<longrightarrow> r < length h')
           \<and> (session_shape (deref h state) \<longrightarrow> session_shape (deref h' r))"
proof -
  from assms obtain ty where ty: "prop_read h action ''type'' = Inr ty"
    using prop_read_total by blast
  from assms obtain v where v: "prop_read h action ''payload'' = Inr v"
    using prop_read_total by blast
  show ?thesis
  proof (cases "ty = JStr ''SET_LOGGEDIN'' \<or> ty = JStr ''SET_USERNAME'' \<or> ty = JStr ''SET_EMAIL''")
    case True
    then obtain k where k: "ty = JStr ''SET_LOGGEDIN'' \<and> k = ''isLoggedIn''
        \<or> ty = JStr ''SET_USERNAME'' \<and> k = ''username''
        \<or> ty = JStr ''SET_EMAIL'' \<and> k = ''email''"
      by auto
    then have kk: "k = ''isLoggedIn'' \<or> k = ''username'' \<or> k = ''email''"
      by auto
    obtain h' r where sp: "spread_with h state k v = (h', r)"
      by (cases "spread_with h state k v")
    have run: "userReducer h state action = Inr (h', r)"
      using userReducer_setter [OF ty v k] sp by simp
    from spread_with_heap [OF sp] session_shape_update [OF _ kk] run show ?thesis
      by auto
  next
    case False
    with ty have "userReducer h state action = Inr (h, state)"
      by (simp add: userReducer_def)
    then show ?thesis by simp
  qed
qed

theorem userReducer_total_witness:
  "(JRef 1 :: unit jsval) \<noteq> JUndefined \<and> (JRef 1 :: unit jsval) \<noteq> JNull
   \<and> (\<exists>h' r. userReducer
                [initialUserState, action_literal (JStr ''SET_USERNAME'') (JStr ''alice'')]
                0 (JRef 1) = Inr (h' :: unit heap, r)
         \<and> take 2 h' = [initialUserState, action_literal (JStr ''SET_USERNAME'') (JStr ''alice'')]
         \<and> r < length h'
         \<and> session_shape (deref h' r))"
proof -
  let ?h = "[initialUserState, action_literal (JStr ''SET_USERNAME'') (JStr ''alice'')]
              :: unit heap"
  have n: "(JRef 1 :: unit jsval) \<noteq> JUndefined" "(JRef 1 :: unit jsval) \<noteq> JNull"
    by simp_all
  have s: "0 < length ?h" "session_shape (deref ?h 0)" "length ?h = 2"
    by (simp_all add: session_shape_def deref_def initialUserState_def)
  from userReducer_total [OF n, of ?h 0] s n show ?thesis
    by (auto simp: numeral_2_eq_2)
qed

subsection \<open>The initial state\<close>

text \<open>
  C6. At store creation the state object is
  \<^verbatim>\<open>{ isLoggedIn: false, username: '', email: '' }\<close> (the spec's \<^verbatim>\<open>loggedIn\<close> is
  \<^verbatim>\<open>isLoggedIn\<close> in the code), whatever was allocated before.
\<close>

theorem UserProvider_mount_initial:
  "current (UserProvider_mount h0) =
     [(''isLoggedIn'', JBool False), (''username'', JStr ''''), (''email'', JStr '''')]"
  by (simp add: current_def UserProvider_mount_def alloc_def deref_append_new
        initialUserState_def)

subsection \<open>Idempotence\<close>

text \<open>
  C7. For every state and every action whose \<^verbatim>\<open>type\<close> is \<^verbatim>\<open>'SET_LOGGEDIN'\<close>,
  \<^verbatim>\<open>'SET_USERNAME'\<close> or \<^verbatim>\<open>'SET_EMAIL'\<close>, applying the reducer to its own result with
  the same action succeeds both times and the second result is an object with the same
  properties and values, in the same order, as the first (it is a fresh object: each
  application allocates one).
\<close>

theorem userReducer_idempotent:
  assumes "prop_read h action ''type'' = Inr ty"
    and "ty = JStr ''SET_LOGGEDIN'' \<or> ty = JStr ''SET_USERNAME'' \<or> ty = JStr ''SET_EMAIL''"
  shows "\<exists>h1 r1 h2 r2. userReducer h state action = Inr (h1, r1)
           \<and> userReducer h1 r1 action = Inr (h2, r2)
           \<and> deref h2 r2 = deref h1 r1"
proof -
  from assms have "ty \<noteq> JUndefined" by auto
  with assms(1) obtain a where a: "action = JRef a" "a < length h"
    using prop_read_allocated by blast
  obtain v where v: "prop_read h action ''payload'' = Inr v"
    using a by simp
  from assms(2) obtain k where k: "ty = JStr ''SET_LOGGEDIN'' \<and> k = ''isLoggedIn''
      \<or> ty = JStr ''SET_USERNAME'' \<and> k = ''username''
      \<or> ty = JStr ''SET_EMAIL'' \<and> k = ''email''"
    by auto
  let ?ob = "AList.update k v (deref h state)"
  let ?h1 = "h @ [?ob]"
  have run1: "userReducer h state action = Inr (?h1, length h)"
    using userReducer_setter [OF assms(1) v k] by (simp add: spread_with_def alloc_def)
  have ty1: "prop_read ?h1 action ''type'' = Inr ty"
    using prop_read_append_allocated [OF a] assms(1) by simp
  have v1: "prop_read ?h1 action ''payload'' = Inr v"
    using prop_read_append_allocated [OF a] v by simp
  have run2: "userReducer ?h1 (length h) action = Inr (?h1 @ [?ob], length ?h1)"
    using userReducer_setter [OF ty1 v1 k]
    by (simp add: spread_with_def alloc_def deref_append_new)
  have same: "deref (?h1 @ [?ob]) (length ?h1) = deref ?h1 (length h)"
    by (simp only: deref_append_new)
  from run1 run2 same show ?thesis by blast
qed

theorem userReducer_idempotent_witness:
  "prop_read [initialUserState, action_literal (JStr ''SET_EMAIL'') (JStr ''a@x.com'')]
       (JRef 1) ''type'' = Inr (JStr ''SET_EMAIL'' :: unit jsval)
   \<and> (\<exists>h1 r1 h2 r2.
         userReducer [initialUserState, action_literal (JStr ''SET_EMAIL'') (JStr ''a@x.com'')]
           0 (JRef 1) = Inr (h1 :: unit heap, r1)
         \<and> userReducer h1 r1 (JRef 1) = Inr (h2, r2)
         \<and> deref h2 r2 = deref h1 r1)"
proof -
  let ?h = "[initialUserState, action_literal (JStr ''SET_EMAIL'') (JStr ''a@x.com'')]
              :: unit heap"
  have t: "prop_read ?h (JRef 1) ''type'' = Inr (JStr ''SET_EMAIL'')"
    by (simp add: deref_def action_literal_def)
  have k: "(JStr ''SET_EMAIL'' :: unit jsval) = JStr ''SET_LOGGEDIN''
      \<or> (JStr ''SET_EMAIL'' :: unit jsval) = JStr ''SET_USERNAME''
      \<or> (JStr ''SET_EMAIL'' :: unit jsval) = JStr ''SET_EMAIL''"
    by simp
  from userReducer_idempotent [OF t k, of 0] t show ?thesis
    by blast
qed

subsection \<open>A session\<close>

lemma setUserState_literal_setter:
  "ty = JStr ''SET_LOGGEDIN'' \<and> k = ''isLoggedIn''
     \<or> ty = JStr ''SET_USERNAME'' \<and> k = ''username''
     \<or> ty = JStr ''SET_EMAIL'' \<and> k = ''email'' \<Longrightarrow>
   userState st < length (heap st) \<Longrightarrow>
   \<exists>st'. setUserState_literal st ty p = Inr st'
      \<and> current st' = AList.update k p (current st)
      \<and> userState st' < length (heap st')"
proof -
  assume k: "ty = JStr ''SET_LOGGEDIN'' \<and> k = ''isLoggedIn''
     \<or> ty = JStr ''SET_USERNAME'' \<and> k = ''username''
     \<or> ty = JStr ''SET_EMAIL'' \<and> k = ''email''"
    and al: "userState st < length (heap st)"
  let ?h = "heap st @ [action_literal ty p]"
  let ?a = "JRef (length (heap st)) :: 'a jsval"
  have t: "prop_read ?h ?a ''type'' = Inr ty"
    by (simp add: deref_append_new action_literal_def)
  have v: "prop_read ?h ?a ''payload'' = Inr p"
    by (simp add: deref_append_new action_literal_def)
  have old: "deref ?h (userState st) = current st"
    using al by (simp add: deref_append_old current_def)
  have "userReducer ?h (userState st) ?a = Inr (spread_with ?h (userState st) k p)"
    by (rule userReducer_setter [OF t v k])
  then have "setUserState_literal st ty p =
      Inr \<lparr>heap = ?h @ [AList.update k p (current st)], userState = length ?h\<rparr>"
    by (simp add: setUserState_literal_def setUserState_def alloc_def spread_with_def old)
  then show ?thesis
    by (simp add: current_def deref_def nth_append)
qed

lemma UserProvider_mount_allocated:
  "userState (UserProvider_mount h0) < length (heap (UserProvider_mount h0))"
  by (simp add: UserProvider_mount_def alloc_def)

text \<open>
  C8. From the initial state, dispatching in this order
  \<^verbatim>\<open>{ type: 'SET_USERNAME', payload: 'alice' }\<close>,
  \<^verbatim>\<open>{ type: 'SET_EMAIL', payload: 'a@x.com' }\<close>,
  \<^verbatim>\<open>{ type: 'SET_LOGGEDIN', payload: true }\<close> and
  \<^verbatim>\<open>{ type: 'SET_LOGGEDIN', payload: false }\<close> succeeds each time, and the state
  object after each dispatch is \<open>{false, alice, empty}\<close>, \<open>{false, alice, a@x.com}\<close>,
  \<open>{true, alice, a@x.com}\<close> and again \<open>{false, alice, a@x.com}\<close>.
\<close>

theorem session_scenario:
  "\<exists>s1 s2 s3 s4.
     setUserState_literal (UserProvider_mount h0) (JStr ''SET_USERNAME'') (JStr ''alice'')
       = Inr s1
     \<and> current s1 =
         [(''isLoggedIn'', JBool False), (''username'', JStr ''alice''), (''email'', JStr '''')]
     \<and> setUserState_literal s1 (JStr ''SET_EMAIL'') (JStr ''a@x.com'') = Inr s2
     \<and> current s2 =
         [(''isLoggedIn'', JBool False), (''username'', JStr ''alice''),
          (''email'', JStr ''a@x.com'')]
     \<and> setUserState_literal s2 (JStr ''SET_LOGGEDIN'') (JBool True) = Inr s3
     \<and> current s3 =
         [(''isLoggedIn'', JBool True), (''username'', JStr ''alice''),
          (''email'', JStr ''a@x.com'')]
     \<and> setUserState_literal s3 (JStr ''SET_LOGGEDIN'') (JBool False) = Inr s4
     \<and> current s4 =
         [(''isLoggedIn'', JBool False), (''username'', JStr ''alice''),
          (''email'', JStr ''a@x.com'')]"
proof -
  let ?s0 = "UserProvider_mount h0 :: 'a store"
  have c0: "current ?s0 =
      [(''isLoggedIn'', JBool False), (''username'', JStr ''''), (''email'', JStr '''')]"
    by (simp add: current_def UserProvider_mount_def alloc_def deref_append_new
          initialUserState_def)
  obtain s1 where s1: "setUserState_literal ?s0 (JStr ''SET_USERNAME'') (JStr ''alice'') = Inr s1"
      "current s1 = AList.update ''username'' (JStr ''alice'') (current ?s0)"
      "userState s1 < length (heap s1)"
    using setUserState_literal_setter [OF _ UserProvider_mount_allocated,
        of "JStr ''SET_USERNAME''" "''username''" h0 "JStr ''alice''"]
    by auto
  obtain s2 where s2: "setUserState_literal s1 (JStr ''SET_EMAIL'') (JStr ''a@x.com'') = Inr s2"
      "current s2 = AList.update ''email'' (JStr ''a@x.com'') (current s1)"
      "userState s2 < length (heap s2)"
    using setUserState_literal_setter [OF _ s1(3),
        of "JStr ''SET_EMAIL''" "''email''" "JStr ''a@x.com''"]
    by auto
  obtain s3 where s3: "setUserState_literal s2 (JStr ''SET_LOGGEDIN'') (JBool True) = Inr s3"
      "current s3 = AList.update ''isLoggedIn'' (JBool True) (current s2)"
      "userState s3 < length (heap s3)"
    using setUserState_literal_setter [OF _ s2(3),
        of "JStr ''SET_LOGGEDIN''" "''isLoggedIn''" "JBool True"]
    by auto
  obtain s4 where s4: "setUserState_literal s3 (JStr ''SET_LOGGEDIN'') (JBool False) = Inr s4"
      "current s4 = AList.update ''isLoggedIn'' (JBool False) (current s3)"
      "userState s4 < length (heap s4)"
    using setUserState_literal_setter [OF _ s3(3),
        of "JStr ''SET_LOGGEDIN''" "''isLoggedIn''" "JBool False"]
    by auto
  have c1: "current s1 =
      [(''isLoggedIn'', JBool False), (''username'', JStr ''alice''), (''email'', JStr '''')]"
    by (simp add: s1(2) c0)
  have c2: "current s2 =
      [(''isLoggedIn'', JBool False), (''username'', JStr ''alice''),
       (''email'', JStr ''a@x.com'')]"
    by (simp add: s2(2) c1)
  have c3: "current s3 =
      [(''isLoggedIn'', JBool True), (''username'', JStr ''alice''),
       (''email'', JStr ''a@x.com'')]"
    by (simp add: s3(2) c2)
  have c4: "current s4 =
      [(''isLoggedIn'', JBool False), (''username'', JStr ''alice''),
       (''email'', JStr ''a@x.com'')]"
    by (simp add: s4(2) c3)
  from s1(1) c1 s2(1) c2 s3(1) c3 s4(1) c4 show ?thesis by blast
qed

subsection \<open>The context accessor\<close>

lemma userReducer_error:
  "userReducer h state action = Inl e \<Longrightarrow> e = TypeError"
  by (cases action) (auto simp: userReducer_def split: if_splits)

lemma UserProvider_value:
  "UserProvider st dispatchFn = (h, pv) \<Longrightarrow>
     pv = JRef (length (heap st))
     \<and> prop_read h pv ''userState'' = Inr (JRef (userState st))
     \<and> prop_read h pv ''setUserState'' = Inr dispatchFn"
  by (auto simp: UserProvider_def alloc_def deref_append_new)

text \<open>
  C9. Outside every provider \<^verbatim>\<open>useUserContext\<close> throws its error (the spec's
  \<open>NotInitialized\<close>; in the code \<^verbatim>\<open>Error('userContext needs to be within a Provider')\<close>).
  Under \<^verbatim>\<open>UserProvider\<close> it succeeds and returns the provided object, from which
  \<^verbatim>\<open>userState\<close> (the state) and \<^verbatim>\<open>setUserState\<close> (the dispatch function) are read;
  more generally it returns any provided value that is neither \<^verbatim>\<open>undefined\<close> nor
  \<^verbatim>\<open>null\<close>. It is the only failure the program defines: the accessor fails with no
  other error and only when the context value is \<^verbatim>\<open>undefined\<close> or \<^verbatim>\<open>null\<close>, and
  a dispatch never fails with a thrown \<open>Error\<close>.
\<close>

theorem useUserContext_spec:
  "useUserContext ([] :: 'p jsval list)
       = Inl (Error ''userContext needs to be within a Provider'')
   \<and> (UserProvider (st :: 'p store) dispatchFn = (h, pv) \<longrightarrow>
        useUserContext (pv # outer) = Inr pv
        \<and> prop_read h pv ''userState'' = Inr (JRef (userState st))
        \<and> prop_read h pv ''setUserState'' = Inr dispatchFn)
   \<and> (ctx \<noteq> JUndefined \<and> ctx \<noteq> JNull \<longrightarrow>
        useUserContext (ctx # (outer' :: 'p jsval list)) = Inr ctx)
   \<and> (useUserContext (providers :: 'p jsval list) = Inl e \<longrightarrow>
        e = Error ''userContext needs to be within a Provider''
        \<and> (useContext providers = JUndefined \<or> useContext providers = JNull))
   \<and> setUserState (st' :: 'p store) action \<noteq> Inl (Error msg)"
proof -
  have a: "useUserContext ([] :: 'p jsval list)
      = Inl (Error ''userContext needs to be within a Provider'')"
    by (simp add: useUserContext_def useContext_def)
  have c: "ctx \<noteq> JUndefined \<and> ctx \<noteq> JNull \<longrightarrow>
      useUserContext (ctx # outer') = Inr ctx"
    by (simp add: useUserContext_def useContext_def)
  have b: "UserProvider st dispatchFn = (h, pv) \<longrightarrow>
        useUserContext (pv # outer) = Inr pv
        \<and> prop_read h pv ''userState'' = Inr (JRef (userState st))
        \<and> prop_read h pv ''setUserState'' = Inr dispatchFn"
  proof
    assume "UserProvider st dispatchFn = (h, pv)"
    from UserProvider_value [OF this] show "useUserContext (pv # outer) = Inr pv
        \<and> prop_read h pv ''userState'' = Inr (JRef (userState st))
        \<and> prop_read h pv ''setUserState'' = Inr dispatchFn"
      by (auto simp: useUserContext_def useContext_def)
  qed
  have d: "useUserContext providers = Inl e \<longrightarrow>
        e = Error ''userContext needs to be within a Provider''
        \<and> (useContext providers = JUndefined \<or> useContext providers = JNull)"
    by (auto simp: useUserContext_def Let_def split: if_splits)
  have e: "setUserState st' action \<noteq> Inl (Error msg)"
  proof
    assume "setUserState st' action = Inl (Error msg)"
    then have "userReducer (heap st') (userState st') action = Inl (Error msg)"
      by (auto simp: setUserState_def split: sum.splits)
    from userReducer_error [OF this] show False by simp
  qed
  from a b c d e show ?thesis by blast
qed

theorem useUserContext_spec_witness:
  "UserProvider (UserProvider_mount [[]]) (JRef 0)
       = ([[], initialUserState, [(''userState'', JRef 1), (''setUserState'', JRef 0)]]
            :: unit heap, JRef 2)
   \<and> useUserContext [JRef 2 :: unit jsval] = Inr (JRef 2)
   \<and> prop_read ([[], initialUserState, [(''userState'', JRef 1), (''setUserState'', JRef 0)]]
                   :: unit heap) (JRef 2) ''userState''
       = Inr (JRef (userState (UserProvider_mount [[]] :: unit store)))
   \<and> (JBool True :: unit jsval) \<noteq> JUndefined \<and> (JBool True :: unit jsval) \<noteq> JNull
   \<and> useUserContext [JBool True :: unit jsval] = Inr (JBool True)
   \<and> useUserContext [JNull :: unit jsval]
       = Inl (Error ''userContext needs to be within a Provider'')
   \<and> useContext [JNull :: unit jsval] = JNull"
proof -
  let ?h = "[[], initialUserState, [(''userState'', JRef 1), (''setUserState'', JRef 0)]]
              :: unit heap"
  have p: "UserProvider (UserProvider_mount [[]]) (JRef 0) = (?h, JRef 2)"
    by (simp add: UserProvider_def UserProvider_mount_def alloc_def)
  have n: "(JBool True :: unit jsval) \<noteq> JUndefined \<and> (JBool True :: unit jsval) \<noteq> JNull"
    by simp
  have f: "useUserContext [JNull :: unit jsval]
      = Inl (Error ''userContext needs to be within a Provider'')"
    by (simp add: useUserContext_def useContext_def)
  from useUserContext_spec [where st = "UserProvider_mount [[]]" and dispatchFn = "JRef 0"
      and h = "?h" and pv = "JRef 2" and outer = "[]" and ctx = "JBool True"
      and outer' = "[]" and providers = "[JNull]"
      and e = "Error ''userContext needs to be within a Provider''"]
    p n f
  show ?thesis
    by (simp add: useContext_def)
qed

subsection \<open>Payloads are stored as they come\<close>

lemma well_typed_spread:
  "spread_with h state k v = (h', r) \<Longrightarrow> well_typed h state \<Longrightarrow>
     (k = ''isLoggedIn'' \<longrightarrow> well_typed h' r = is_bool v)
     \<and> (k = ''username'' \<longrightarrow> well_typed h' r = is_str v)
     \<and> (k = ''email'' \<longrightarrow> well_typed h' r = is_str v)"
  by (auto simp: well_typed_def spread_with_def alloc_def deref_append_new update_conv')

text \<open>
  C10. The reducer neither checks nor converts a payload. For every state and every
  payload \<open>v\<close>, of whatever type, a \<^verbatim>\<open>'SET_LOGGEDIN'\<close> action makes the login flag
  exactly \<open>v\<close>, a \<^verbatim>\<open>'SET_USERNAME'\<close> action makes \<^verbatim>\<open>username\<close> exactly \<open>v\<close> and a
  \<^verbatim>\<open>'SET_EMAIL'\<close> action makes \<^verbatim>\<open>email\<close> exactly \<open>v\<close>. So, starting from a state
  with a boolean flag and two strings, the result again has a boolean flag and two
  strings exactly when the payload is a boolean (for the flag), respectively a string
  (for \<^verbatim>\<open>username\<close> and \<^verbatim>\<open>email\<close>).
\<close>

theorem payload_verbatim:
  assumes "prop_read h action ''type'' = Inr ty"
    and "prop_read h action ''payload'' = Inr v"
    and "well_typed h state"
  shows "\<exists>h' r. userReducer h state action = Inr (h', r)
           \<and> (ty = JStr ''SET_LOGGEDIN'' \<longrightarrow>
                prop_read h' (JRef r) ''isLoggedIn'' = Inr v
                \<and> well_typed h' r = is_bool v)
           \<and> (ty = JStr ''SET_USERNAME'' \<longrightarrow>
                prop_read h' (JRef r) ''username'' = Inr v
                \<and> well_typed h' r = is_str v)
           \<and> (ty = JStr ''SET_EMAIL'' \<longrightarrow>
                prop_read h' (JRef r) ''email'' = Inr v
                \<and> well_typed h' r = is_str v)"
proof (cases "ty = JStr ''SET_LOGGEDIN'' \<or> ty = JStr ''SET_USERNAME'' \<or> ty = JStr ''SET_EMAIL''")
  case True
  then obtain k where k: "ty = JStr ''SET_LOGGEDIN'' \<and> k = ''isLoggedIn''
      \<or> ty = JStr ''SET_USERNAME'' \<and> k = ''username''
      \<or> ty = JStr ''SET_EMAIL'' \<and> k = ''email''"
    by auto
  obtain h' r where sp: "spread_with h state k v = (h', r)"
    by (cases "spread_with h state k v")
  have run: "userReducer h state action = Inr (h', r)"
    using userReducer_setter [OF assms(1,2) k] sp by simp
  have stored: "prop_read h' (JRef r) k = Inr v"
    using sp by (rule prop_read_spread_same)
  note typed = well_typed_spread [OF sp assms(3)]
  from k run stored typed show ?thesis by auto
next
  case False
  with assms(1) have "userReducer h state action = Inr (h, state)"
    by (simp add: userReducer_def)
  with False show ?thesis by simp
qed

theorem payload_verbatim_witness:
  "prop_read [initialUserState, action_literal (JStr ''SET_LOGGEDIN'') (JStr ''yes'')]
       (JRef 1) ''type'' = Inr (JStr ''SET_LOGGEDIN'' :: unit jsval)
   \<and> prop_read [initialUserState, action_literal (JStr ''SET_LOGGEDIN'') (JStr ''yes'')]
       (JRef 1) ''payload'' = Inr (JStr ''yes'' :: unit jsval)
   \<and> well_typed
       ([initialUserState, action_literal (JStr ''SET_LOGGEDIN'') (JStr ''yes'')] :: unit heap) 0
   \<and> (\<exists>h' r. userReducer
                [initialUserState, action_literal (JStr ''SET_LOGGEDIN'') (JStr ''yes'')]
                0 (JRef 1) = Inr (h', r)
         \<and> prop_read h' (JRef r) ''isLoggedIn'' = Inr (JStr ''yes'' :: unit jsval)
         \<and> well_typed h' r = False)
   \<and> prop_read [initialUserState, action_literal (JStr ''SET_USERNAME'') (JBool True)]
       (JRef 1) ''type'' = Inr (JStr ''SET_USERNAME'' :: unit jsval)
   \<and> prop_read [initialUserState, action_literal (JStr ''SET_USERNAME'') (JBool True)]
       (JRef 1) ''payload'' = Inr (JBool True :: unit jsval)
   \<and> well_typed
       ([initialUserState, action_literal (JStr ''SET_USERNAME'') (JBool True)] :: unit heap) 0
   \<and> (\<exists>h' r. userReducer
                [initialUserState, action_literal (JStr ''SET_USERNAME'') (JBool True)]
                0 (JRef 1) = Inr (h', r)
         \<and> prop_read h' (JRef r) ''username'' = Inr (JBool True :: unit jsval)
         \<and> well_typed h' r = False)
   \<and> prop_read [initialUserState, action_literal (JStr ''SET_EMAIL'') (JStr ''a@x.com'')]
       (JRef 1) ''type'' = Inr (JStr ''SET_EMAIL'' :: unit jsval)
   \<and> prop_read [initialUserState, action_literal (JStr ''SET_EMAIL'') (JStr ''a@x.com'')]
       (JRef 1) ''payload'' = Inr (JStr ''a@x.com'' :: unit jsval)
   \<and> well_typed
       ([initialUserState, action_literal (JStr ''SET_EMAIL'') (JStr ''a@x.com'')] :: unit heap) 0
   \<and> (\<exists>h' r. userReducer
                [initialUserState, action_literal (JStr ''SET_EMAIL'') (JStr ''a@x.com'')]
                0 (JRef 1) = Inr (h', r)
         \<and> prop_read h' (JRef r) ''email'' = Inr (JStr ''a@x.com'' :: unit jsval)
         \<and> well_typed h' r = True)"
proof -
  let ?h = "[initialUserState, action_literal (JStr ''SET_LOGGEDIN'') (JStr ''yes'')]
              :: unit heap"
  let ?hu = "[initialUserState, action_literal (JStr ''SET_USERNAME'') (JBool True)]
              :: unit heap"
  let ?he = "[initialUserState, action_literal (JStr ''SET_EMAIL'') (JStr ''a@x.com'')]
              :: unit heap"
  have t: "prop_read ?h (JRef 1) ''type'' = Inr (JStr ''SET_LOGGEDIN'')"
    by (simp add: deref_def action_literal_def)
  have p: "prop_read ?h (JRef 1) ''payload'' = Inr (JStr ''yes'')"
    by (simp add: deref_def action_literal_def)
  have w: "well_typed ?h 0"
    by (simp add: well_typed_def deref_def initialUserState_def is_bool_def is_str_def)
  have tu: "prop_read ?hu (JRef 1) ''type'' = Inr (JStr ''SET_USERNAME'')"
    by (simp add: deref_def action_literal_def)
  have pu: "prop_read ?hu (JRef 1) ''payload'' = Inr (JBool True)"
    by (simp add: deref_def action_literal_def)
  have wu: "well_typed ?hu 0"
    by (simp add: well_typed_def deref_def initialUserState_def is_bool_def is_str_def)
  have te: "prop_read ?he (JRef 1) ''type'' = Inr (JStr ''SET_EMAIL'')"
    by (simp add: deref_def action_literal_def)
  have pe: "prop_read ?he (JRef 1) ''payload'' = Inr (JStr ''a@x.com'')"
    by (simp add: deref_def action_literal_def)
  have we: "well_typed ?he 0"
    by (simp add: well_typed_def deref_def initialUserState_def is_bool_def is_str_def)
  have ty: "is_bool (JStr ''yes'' :: unit jsval) = False"
      "is_str (JBool True :: unit jsval) = False"
      "is_str (JStr ''a@x.com'' :: unit jsval) = True"
    by (simp_all add: is_bool_def is_str_def)
  have 1: "\<exists>h' r. userReducer ?h 0 (JRef 1) = Inr (h', r)
         \<and> prop_read h' (JRef r) ''isLoggedIn'' = Inr (JStr ''yes'' :: unit jsval)
         \<and> well_typed h' r = False"
    using payload_verbatim [OF t p w] ty by auto
  have 2: "\<exists>h' r. userReducer ?hu 0 (JRef 1) = Inr (h', r)
         \<and> prop_read h' (JRef r) ''username'' = Inr (JBool True :: unit jsval)
         \<and> well_typed h' r = False"
    using payload_verbatim [OF tu pu wu] ty by auto
  have 3: "\<exists>h' r. userReducer ?he 0 (JRef 1) = Inr (h', r)
         \<and> prop_read h' (JRef r) ''email'' = Inr (JStr ''a@x.com'' :: unit jsval)
         \<and> well_typed h' r = True"
    using payload_verbatim [OF te pe we] ty by auto
  from t p w 1 tu pu wu 2 te pe we 3 show ?thesis
    by blast
qed

end
